theory Spec2Isabelle
  imports Main "HOL-Library.Word"
begin

section \<open>ISPnubMod: the main loop of \<^verbatim>\<open>main.c\<close>\<close>

text \<open>
  The firmware's \<^verbatim>\<open>main\<close> is one endless loop over seven local variables. One pass
  of the loop body is modelled as a function from the locals to the new locals together
  with the list of the external calls the pass makes, in program order. What the
  collaborators answer (clock, debounce, counter, script engine) is an input of the pass,
  one field per call site.
\<close>

subsection \<open>Data\<close>

type_synonym uint8_t = "8 word"
type_synonym uint16_t = "16 word"

text \<open>
  The values \<^verbatim>\<open>S_INIT\<close> ... \<^verbatim>\<open>S_SLEEP\<close> come from \<^verbatim>\<open>main.h\<close>. All seven are case
  labels of one \<^verbatim>\<open>switch\<close>, hence pairwise distinct, and \<^verbatim>\<open>state\<close> is only ever
  assigned one of them.
\<close>

datatype mode = S_INIT | S_WAKEUP | S_IDLE | S_PROGRAMMING | S_NO_MORE | S_NO_PROGRAM | S_SLEEP

text \<open>The local variables of \<^verbatim>\<open>main\<close> (lines 81-90).\<close>

record locals =
  ticker10MS :: uint8_t
  ticker250MS :: uint8_t
  sleeptimer :: uint8_t
  success :: uint8_t
  buzzer :: uint8_t
  toggle250MS :: uint8_t
  state :: mode

text \<open>
  Constants and build switches of headers that are not part of \<^verbatim>\<open>main.c\<close>, taken as
  parameters. A switch is \<open>True\<close> when the macro equals 1.
\<close>

record build =
  CLOCK_TICKER_SLOW_250MS :: uint8_t
  CLOCK_TICKER_FAST_10MS :: uint8_t
  CLOCK_TICKER_SLOW_8S :: uint8_t
  COMPATIBILITY_MODE_ISPNUB_ORIGINAL :: bool
  DONT_USE_YELLOW_LED :: bool
  HAS_DYNAMIC_BOD_CONTROL :: bool

text \<open>
  What the collaborators return during one pass of the loop, one field per call site
  (the tick counters are volatile, so two reads in one pass may differ). The two
  difference functions take the reference the code passes.
  Modelled from the spec: the return types of \<^verbatim>\<open>clock.h\<close>, \<^verbatim>\<open>counter.h\<close>,
  \<^verbatim>\<open>debounce.h\<close> and \<^verbatim>\<open>script.h\<close> (unsigned counters; the remaining-cycle counter is a
  count, read here as an unsigned 16-bit value).
\<close>

record inputs =
  slowDiff_toggle :: "uint8_t \<Rightarrow> uint8_t"     \<comment> \<open>\<^verbatim>\<open>clock_getTickerSlowDiff\<close>, line 100\<close>
  tickerSlow_toggle :: uint8_t                 \<comment> \<open>\<^verbatim>\<open>clock_getTickerSlow\<close>, line 101\<close>
  fastDiff :: "uint8_t \<Rightarrow> uint8_t"            \<comment> \<open>\<^verbatim>\<open>clock_getTickerFastDiff\<close>, line 107\<close>
  tickerFast :: uint8_t                        \<comment> \<open>\<^verbatim>\<open>clock_getTickerFast\<close>, line 108\<close>
  counter_read :: uint16_t                     \<comment> \<open>lines 191 and 205\<close>
  key_press_SWITCH :: uint8_t                  \<comment> \<open>\<^verbatim>\<open>get_key_press(1 << IO_SWITCH)\<close>\<close>
  key_press_EXT_SWITCH :: uint8_t              \<comment> \<open>\<^verbatim>\<open>get_key_press(1 << IO_EXT_SWITCH)\<close>\<close>
  script_run :: uint8_t                        \<comment> \<open>line 216\<close>
  tickerSlow_proc :: uint8_t                   \<comment> \<open>\<^verbatim>\<open>clock_getTickerSlow\<close>, lines 203, 230, 258\<close>
  slowDiff_sleep :: "uint8_t \<Rightarrow> uint8_t"      \<comment> \<open>\<^verbatim>\<open>clock_getTickerSlowDiff\<close>, line 269\<close>

text \<open>Every external call of \<^verbatim>\<open>main.c\<close>, with the argument the code passes.\<close>

datatype call =
    Hal_init | Clock_init | Set_sleep_mode_PWR_DOWN
  | Clock_getTickerFast | Clock_getTickerSlow
  | Clock_getTickerFastDiff uint8_t | Clock_getTickerSlowDiff uint8_t
  | TickDebounce
  | Hal_setBuzzer uint8_t | Hal_setLEDgreen uint8_t | Hal_setLEDyellow uint8_t
  | Hal_setLEDred uint8_t
  | Counter_read | Get_key_press_SWITCH | Get_key_press_EXT_SWITCH | Script_run
  | Hal_enableINT0 | Hal_enableINT1 | Hal_disableINT0 | Hal_disableINT1
  | Sleep_enable | Sleep_bod_disable | Sei | Sleep_cpu | Sleep_disable | Cli

text \<open>The outputs and interrupt controls the calls act on.\<close>

record hw =
  LEDgreen :: bool
  LEDyellow :: bool
  LEDred :: bool
  Buzzer :: bool
  INT0 :: bool
  INT1 :: bool
  SE :: bool
  I_flag :: bool

text \<open>
  Modelled from the spec: \<^verbatim>\<open>hal.h\<close> and the AVR library are not part of \<^verbatim>\<open>main.c\<close>.
  A setter drives its output on exactly when its argument is nonzero, the interrupt calls
  arm and disarm their source, \<^verbatim>\<open>sei\<close>/\<^verbatim>\<open>cli\<close> set and clear the global interrupt flag,
  \<^verbatim>\<open>sleep_enable\<close>/\<^verbatim>\<open>sleep_disable\<close> set and clear the sleep-enable bit. The other
  calls leave these eight bits alone.
\<close>

fun hal :: "hw \<Rightarrow> call \<Rightarrow> hw" where
  "hal h (Hal_setBuzzer x) = h\<lparr>Buzzer := (x \<noteq> 0)\<rparr>"
| "hal h (Hal_setLEDgreen x) = h\<lparr>LEDgreen := (x \<noteq> 0)\<rparr>"
| "hal h (Hal_setLEDyellow x) = h\<lparr>LEDyellow := (x \<noteq> 0)\<rparr>"
| "hal h (Hal_setLEDred x) = h\<lparr>LEDred := (x \<noteq> 0)\<rparr>"
| "hal h Hal_enableINT0 = h\<lparr>INT0 := True\<rparr>"
| "hal h Hal_enableINT1 = h\<lparr>INT1 := True\<rparr>"
| "hal h Hal_disableINT0 = h\<lparr>INT0 := False\<rparr>"
| "hal h Hal_disableINT1 = h\<lparr>INT1 := False\<rparr>"
| "hal h Sleep_enable = h\<lparr>SE := True\<rparr>"
| "hal h Sleep_disable = h\<lparr>SE := False\<rparr>"
| "hal h Sei = h\<lparr>I_flag := True\<rparr>"
| "hal h Cli = h\<lparr>I_flag := False\<rparr>"
| "hal h _ = h"

definition drive :: "hw \<Rightarrow> call list \<Rightarrow> hw" where
  "drive h cs = foldl hal h cs"

subsection \<open>The loop body, section by section\<close>

text \<open>Sequencing: run \<open>f\<close> on the locals \<open>r\<close> ends with, and append its calls.\<close>

definition seq :: "locals \<times> call list \<Rightarrow> (locals \<Rightarrow> locals \<times> call list) \<Rightarrow> locals \<times> call list" where
  "seq r f = (fst (f (fst r)), snd r @ snd (f (fst r)))"

text \<open>C's \<^verbatim>\<open>!\<close> on an \<^verbatim>\<open>uint8_t\<close>.\<close>

definition lnot :: "uint8_t \<Rightarrow> uint8_t" where
  "lnot x = (if x = 0 then 1 else 0)"

text \<open>Lines 99-104.\<close>

definition slow_ticks :: "build \<Rightarrow> inputs \<Rightarrow> locals \<Rightarrow> locals \<times> call list" where
  "slow_ticks b e s =
     (if CLOCK_TICKER_SLOW_250MS b < slowDiff_toggle e (ticker250MS s)
      then (s\<lparr>ticker250MS := tickerSlow_toggle e, toggle250MS := lnot (toggle250MS s)\<rparr>,
            [Clock_getTickerSlowDiff (ticker250MS s), Clock_getTickerSlow])
      else (s, [Clock_getTickerSlowDiff (ticker250MS s)]))"

text \<open>Lines 106-114.\<close>

definition fast_ticks :: "build \<Rightarrow> inputs \<Rightarrow> locals \<Rightarrow> locals \<times> call list" where
  "fast_ticks b e s =
     (if CLOCK_TICKER_FAST_10MS b < fastDiff e (ticker10MS s)
      then (s\<lparr>ticker10MS := tickerFast e,
               buzzer := (if 0 < buzzer s then buzzer s - 1 else buzzer s)\<rparr>,
            [Clock_getTickerFastDiff (ticker10MS s), Clock_getTickerFast, TickDebounce])
      else (s, [Clock_getTickerFastDiff (ticker10MS s)]))"

text \<open>Lines 116-121.\<close>

definition buzzer_signaling :: "locals \<Rightarrow> locals \<times> call list" where
  "buzzer_signaling s =
     (if buzzer s = 0 then (s, [Hal_setBuzzer 0]) else (s, [Hal_setBuzzer 1]))"

text \<open>Lines 122-181: the first \<^verbatim>\<open>switch\<close>.\<close>

fun led_calls :: "build \<Rightarrow> locals \<Rightarrow> mode \<Rightarrow> call list" where
  "led_calls b s S_INIT =
     [Hal_setLEDgreen 1, Hal_setLEDyellow 0, Hal_setLEDred 0, Hal_setBuzzer 0]"
| "led_calls b s S_WAKEUP =
     [Hal_setLEDgreen 1, Hal_setLEDyellow 0, Hal_setLEDred 0, Hal_setBuzzer 0]"
| "led_calls b s S_IDLE =
     (if success s = 1
      then [Hal_setLEDgreen 1, Hal_setLEDyellow 0, Hal_setLEDred 0]
      else [Hal_setLEDgreen 0, Hal_setLEDyellow 0, Hal_setLEDred (toggle250MS s)])"
| "led_calls b s S_PROGRAMMING =
     Hal_setLEDgreen 0 #
     (if COMPATIBILITY_MODE_ISPNUB_ORIGINAL b \<or> DONT_USE_YELLOW_LED b
      then [Hal_setLEDyellow 0, Hal_setLEDred 1]
      else [Hal_setLEDyellow 1, Hal_setLEDred 0])"
| "led_calls b s S_NO_MORE =
     [Hal_setLEDgreen (toggle250MS s), Hal_setLEDyellow 0, Hal_setLEDred (toggle250MS s)]"
| "led_calls b s S_NO_PROGRAM =
     [Hal_setLEDgreen (lnot (toggle250MS s)), Hal_setLEDyellow 0,
      Hal_setLEDred (toggle250MS s)]"
| "led_calls b s S_SLEEP =
     [Hal_setLEDgreen 0, Hal_setLEDyellow 0, Hal_setLEDred 0, Hal_setBuzzer 0]"

definition led_signaling :: "build \<Rightarrow> locals \<Rightarrow> locals \<times> call list" where
  "led_signaling b s = (s, led_calls b s (state s))"

text \<open>
  Lines 185-264: the second \<^verbatim>\<open>switch\<close>. In the first branch the conditional store of
  \<^verbatim>\<open>S_NO_MORE\<close> is followed by the unconditional store of \<^verbatim>\<open>S_IDLE\<close>, as in the source.
  The second \<^verbatim>\<open>get_key_press\<close> is only called when the first returned 0.
\<close>

definition processing_init :: "inputs \<Rightarrow> locals \<Rightarrow> locals \<times> call list" where
  "processing_init e s =
     (let s1 = (if counter_read e = 0 then s\<lparr>state := S_NO_MORE\<rparr> else s)
      in (s1\<lparr>state := S_IDLE\<rparr>, [Counter_read]))"

definition pressed :: "inputs \<Rightarrow> locals \<Rightarrow> locals \<times> call list" where
  "pressed e s =
     (let s1 = s\<lparr>sleeptimer := tickerSlow_proc e\<rparr>
      in (if 0 < counter_read e
          then s1\<lparr>state := S_PROGRAMMING\<rparr>
          else s1\<lparr>buzzer := 60, state := S_NO_MORE\<rparr>,
          [Clock_getTickerSlow, Counter_read]))"

definition processing_idle :: "inputs \<Rightarrow> locals \<Rightarrow> locals \<times> call list" where
  "processing_idle e s =
     (if key_press_SWITCH e \<noteq> 0
      then seq (s, [Get_key_press_SWITCH]) (pressed e)
      else if key_press_EXT_SWITCH e \<noteq> 0
      then seq (s, [Get_key_press_SWITCH, Get_key_press_EXT_SWITCH]) (pressed e)
      else (s, [Get_key_press_SWITCH, Get_key_press_EXT_SWITCH]))"

definition processing_programming :: "inputs \<Rightarrow> locals \<Rightarrow> locals \<times> call list" where
  "processing_programming e s =
     (let s1 = s\<lparr>success := script_run e\<rparr>;
          s2 = (if success s1 = 1 then s1\<lparr>buzzer := 3, state := S_IDLE\<rparr>
                else if success s1 = 0 then s1\<lparr>buzzer := 30, state := S_IDLE\<rparr>
                else s1\<lparr>buzzer := 60, state := S_NO_PROGRAM\<rparr>)
      in (s2\<lparr>sleeptimer := tickerSlow_proc e\<rparr>, [Script_run, Clock_getTickerSlow]))"

definition processing_sleep :: "build \<Rightarrow> inputs \<Rightarrow> locals \<Rightarrow> locals \<times> call list" where
  "processing_sleep b e s =
     (s\<lparr>sleeptimer := tickerSlow_proc e, state := S_WAKEUP\<rparr>,
      [Hal_enableINT0, Hal_enableINT1, Sleep_enable]
      @ (if HAS_DYNAMIC_BOD_CONTROL b then [Sleep_bod_disable] else [])
      @ [Sei, Sleep_cpu, Sleep_disable, Clock_getTickerSlow])"

fun processing_of :: "build \<Rightarrow> inputs \<Rightarrow> mode \<Rightarrow> locals \<Rightarrow> locals \<times> call list" where
  "processing_of b e S_INIT s = processing_init e s"
| "processing_of b e S_WAKEUP s = processing_init e s"
| "processing_of b e S_IDLE s = processing_idle e s"
| "processing_of b e S_PROGRAMMING s = processing_programming e s"
| "processing_of b e S_NO_MORE s = (s, [])"
| "processing_of b e S_NO_PROGRAM s = (s, [])"
| "processing_of b e S_SLEEP s = processing_sleep b e s"

definition processing :: "build \<Rightarrow> inputs \<Rightarrow> locals \<Rightarrow> locals \<times> call list" where
  "processing b e s = processing_of b e (state s) s"

text \<open>Lines 267-273.\<close>

definition go_to_sleep :: "build \<Rightarrow> inputs \<Rightarrow> locals \<Rightarrow> locals \<times> call list" where
  "go_to_sleep b e s =
     (if CLOCK_TICKER_SLOW_8S b < slowDiff_sleep e (sleeptimer s)
      then (s\<lparr>state := S_SLEEP\<rparr>, [Cli, Clock_getTickerSlowDiff (sleeptimer s)])
      else (s, [Cli, Clock_getTickerSlowDiff (sleeptimer s), Sei]))"

text \<open>The loop body up to and including the first \<^verbatim>\<open>switch\<close> (lines 99-181).\<close>

definition signaling :: "build \<Rightarrow> inputs \<Rightarrow> locals \<Rightarrow> locals \<times> call list" where
  "signaling b e s =
     seq (seq (seq (slow_ticks b e s) (fast_ticks b e)) buzzer_signaling) (led_signaling b)"

text \<open>The loop body up to the sleep check (lines 99-264), and the whole body.\<close>

definition transition :: "build \<Rightarrow> inputs \<Rightarrow> locals \<Rightarrow> locals \<times> call list" where
  "transition b e s = seq (signaling b e s) (processing b e)"

definition loop_body :: "build \<Rightarrow> inputs \<Rightarrow> locals \<Rightarrow> locals \<times> call list" where
  "loop_body b e s = seq (transition b e s) (go_to_sleep b e)"

text \<open>
  Lines 76-93: the start of \<^verbatim>\<open>main\<close>, given the three tick values read, and the first
  passes of the endless loop, one per element of the input list.
\<close>

definition main_init :: "uint8_t \<Rightarrow> uint8_t \<Rightarrow> uint8_t \<Rightarrow> locals \<times> call list" where
  "main_init f s1 s2 =
     (\<lparr>ticker10MS = f, ticker250MS = s1, sleeptimer = s2, success = 1, buzzer = 0,
       toggle250MS = 0, state = S_INIT\<rparr>,
      [Hal_init, Clock_init, Set_sleep_mode_PWR_DOWN, Clock_getTickerFast,
       Clock_getTickerSlow, Clock_getTickerSlow, Sei])"

fun main_loop :: "build \<Rightarrow> inputs list \<Rightarrow> locals \<times> call list \<Rightarrow> locals \<times> call list" where
  "main_loop b [] r = r"
| "main_loop b (e # es) r = main_loop b es (seq r (loop_body b e))"

text \<open>Lines 282-288: the two interrupt handlers. They cannot name the locals of \<^verbatim>\<open>main\<close>.\<close>

definition ISR_INT1 :: "locals \<Rightarrow> locals \<times> call list" where
  "ISR_INT1 s = (s, [Hal_disableINT1])"

definition ISR_INT0 :: "locals \<Rightarrow> locals \<times> call list" where
  "ISR_INT0 s = (s, [Hal_disableINT0])"

subsection \<open>Concrete values for the examples\<close>

text \<open>
  A build with the yellow LED in use and an 8-second threshold of 32 slow ticks; the
  collaborators' answers when the fast ticker reads \<open>f\<close> and the slow ticker reads \<open>t\<close>
  (differences by wrap-around subtraction, no key pressed, five cycles left, a script
  that would succeed); locals in \<^verbatim>\<open>S_IDLE\<close>; and all outputs off.
\<close>

definition build0 :: build where
  "build0 = \<lparr>CLOCK_TICKER_SLOW_250MS = 1, CLOCK_TICKER_FAST_10MS = 1,
     CLOCK_TICKER_SLOW_8S = 32, COMPATIBILITY_MODE_ISPNUB_ORIGINAL = False,
     DONT_USE_YELLOW_LED = False, HAS_DYNAMIC_BOD_CONTROL = False\<rparr>"

definition at_time :: "uint8_t \<Rightarrow> uint8_t \<Rightarrow> inputs" where
  "at_time f t = \<lparr>slowDiff_toggle = (\<lambda>r. t - r), tickerSlow_toggle = t,
     fastDiff = (\<lambda>r. f - r), tickerFast = f, counter_read = 5, key_press_SWITCH = 0,
     key_press_EXT_SWITCH = 0, script_run = 1, tickerSlow_proc = t,
     slowDiff_sleep = (\<lambda>r. t - r)\<rparr>"

definition locals0 :: locals where
  "locals0 = \<lparr>ticker10MS = 0, ticker250MS = 0, sleeptimer = 0, success = 1, buzzer = 7,
     toggle250MS = 0, state = S_IDLE\<rparr>"

definition hw0 :: hw where
  "hw0 = \<lparr>LEDgreen = False, LEDyellow = False, LEDred = False, Buzzer = False,
     INT0 = False, INT1 = False, SE = False, I_flag = True\<rparr>"

text \<open>The four signalling outputs, as (green, yellow, red, buzzer).\<close>

definition outputs :: "hw \<Rightarrow> bool \<times> bool \<times> bool \<times> bool" where
  "outputs h = (LEDgreen h, LEDyellow h, LEDred h, Buzzer h)"

text \<open>
  A run from power-on: a programming run returns \<open>r\<close>, the device then sits idle until
  the sleep check fires, sleeps, is woken, and is back in \<^verbatim>\<open>S_IDLE\<close>.
\<close>

definition sleep_wake_run :: "uint8_t \<Rightarrow> locals \<times> call list" where
  "sleep_wake_run r =
     main_loop build0
       [at_time 0 0, (at_time 0 0)\<lparr>key_press_SWITCH := 1\<rparr>, (at_time 0 4)\<lparr>script_run := r\<rparr>,
        at_time 2 40, at_time 4 50, at_time 6 50]
       (main_init 0 0 0)"


subsection \<open>Timing of the buzzer against the sleep timeout\<close>




text \<open>The calls of a pass other than the three LED setters.\<close>

fun is_LED_call :: "call \<Rightarrow> bool" where
  "is_LED_call (Hal_setLEDgreen x) = True"
| "is_LED_call (Hal_setLEDyellow x) = True"
| "is_LED_call (Hal_setLEDred x) = True"
| "is_LED_call _ = False"

definition other_calls :: "call list \<Rightarrow> call list" where
  "other_calls cs = filter (\<lambda>c. \<not> is_LED_call c) cs"

section \<open>Properties\<close>

subsection \<open>Auxiliary facts\<close>

lemmas pass_defs = main_init_def loop_body_def transition_def signaling_def seq_def
  slow_ticks_def fast_ticks_def buzzer_signaling_def led_signaling_def processing_def
  processing_init_def processing_idle_def pressed_def processing_programming_def
  processing_sleep_def go_to_sleep_def lnot_def build0_def at_time_def hw0_def drive_def

lemma drive_append: "drive h (xs @ ys) = drive (drive h xs) ys"
  by (simp add: drive_def)

lemma drive_Nil: "drive h [] = h"
  by (simp add: drive_def)

lemma drive_Cons: "drive h (c # cs) = drive (hal h c) cs"
  by (simp add: drive_def)

lemma fst_seq: "fst (seq r f) = fst (f (fst r))"
  by (simp add: seq_def)

lemma snd_seq: "snd (seq r f) = snd r @ snd (f (fst r))"
  by (simp add: seq_def)

text \<open>The second switch never stores \<^verbatim>\<open>S_SLEEP\<close>.\<close>

lemma processing_not_sleep: "state (fst (processing b e s)) \<noteq> S_SLEEP"
  by (cases "state s")
     (simp_all add: processing_def processing_init_def processing_idle_def pressed_def
        processing_programming_def processing_sleep_def seq_def Let_def)

lemma I_flag_go_to_sleep:
  "I_flag (drive h (snd (go_to_sleep b e s)))
     = (\<not> CLOCK_TICKER_SLOW_8S b < slowDiff_sleep e (sleeptimer s))"
  by (simp add: go_to_sleep_def drive_def)

text \<open>Which sections touch the four signalling outputs.\<close>

lemma outputs_slow_ticks: "outputs (drive h (snd (slow_ticks b e s))) = outputs h"
  by (simp add: slow_ticks_def drive_def outputs_def)

lemma outputs_fast_ticks: "outputs (drive h (snd (fast_ticks b e s))) = outputs h"
  by (simp add: fast_ticks_def drive_def outputs_def)

lemma outputs_processing: "outputs (drive h (snd (processing b e s))) = outputs h"
  by (cases "state s")
     (simp_all add: processing_def processing_init_def processing_idle_def pressed_def
        processing_programming_def processing_sleep_def seq_def Let_def drive_def
        outputs_def)

lemma outputs_go_to_sleep: "outputs (drive h (snd (go_to_sleep b e s))) = outputs h"
  by (simp add: go_to_sleep_def drive_def outputs_def)

lemma outputs_buzzer_signaling:
  "outputs (drive h (snd (buzzer_signaling s)))
     = (LEDgreen h, LEDyellow h, LEDred h, buzzer s \<noteq> 0)"
  by (simp add: buzzer_signaling_def drive_def outputs_def)

lemma outputs_hal_cong: "outputs h = outputs h' \<Longrightarrow> outputs (hal h c) = outputs (hal h' c)"
  by (cases c) (auto simp: outputs_def)

lemma outputs_drive_cong:
  "outputs h = outputs h' \<Longrightarrow> outputs (drive h cs) = outputs (drive h' cs)"
proof (induction cs arbitrary: h h')
  case Nil
  then show ?case by (simp add: drive_Nil)
next
  case (Cons c cs)
  from Cons.prems have "outputs (hal h c) = outputs (hal h' c)"
    by (rule outputs_hal_cong)
  then have "outputs (drive (hal h c) cs) = outputs (drive (hal h' c) cs)"
    by (rule Cons.IH)
  then show ?case by (simp only: drive_Cons)
qed

text \<open>What the two tick sections leave in the locals.\<close>

lemma fst_ticks:
  "fst (fast_ticks b e (fst (slow_ticks b e s))) =
     s\<lparr>ticker250MS := (if CLOCK_TICKER_SLOW_250MS b < slowDiff_toggle e (ticker250MS s)
                        then tickerSlow_toggle e else ticker250MS s),
       toggle250MS := (if CLOCK_TICKER_SLOW_250MS b < slowDiff_toggle e (ticker250MS s)
                        then lnot (toggle250MS s) else toggle250MS s),
       ticker10MS := (if CLOCK_TICKER_FAST_10MS b < fastDiff e (ticker10MS s)
                       then tickerFast e else ticker10MS s),
       buzzer := (if CLOCK_TICKER_FAST_10MS b < fastDiff e (ticker10MS s) \<and> buzzer s \<noteq> 0
                   then buzzer s - 1 else buzzer s)\<rparr>"
  by (simp add: slow_ticks_def fast_ticks_def word_greater_zero_iff)

lemma fst_buzzer_signaling: "fst (buzzer_signaling s) = s"
  by (simp add: buzzer_signaling_def)

lemma fst_led_signaling: "fst (led_signaling b s) = s"
  by (simp add: led_signaling_def)

lemma snd_led_signaling: "snd (led_signaling b s) = led_calls b s (state s)"
  by (simp add: led_signaling_def)

lemma state_slow_ticks: "state (fst (slow_ticks b e s)) = state s"
  by (simp add: slow_ticks_def)

lemma state_fast_ticks: "state (fst (fast_ticks b e s)) = state s"
  by (simp add: fast_ticks_def)

lemma fst_signaling: "fst (signaling b e s) = fst (fast_ticks b e (fst (slow_ticks b e s)))"
  by (simp add: signaling_def fst_seq buzzer_signaling_def led_signaling_def)

lemma state_signaling: "state (fst (signaling b e s)) = state s"
  by (simp add: fst_signaling fst_ticks)

lemma success_signaling: "success (fst (signaling b e s)) = success s"
  by (simp add: fst_signaling fst_ticks)

lemma success_pass:
  "success (fst (loop_body b e s)) =
     (if state s = S_PROGRAMMING then script_run e else success s)"
  by (cases "state s")
     (simp_all add: loop_body_def transition_def fst_seq go_to_sleep_def processing_def
        state_signaling success_signaling processing_init_def processing_idle_def
        pressed_def processing_programming_def processing_sleep_def seq_def Let_def)

text \<open>The calls of one pass, and the outputs they leave.\<close>

lemma snd_signaling:
  "snd (signaling b e s) =
     snd (slow_ticks b e s) @ snd (fast_ticks b e (fst (slow_ticks b e s)))
     @ snd (buzzer_signaling (fst (signaling b e s)))
     @ led_calls b (fst (signaling b e s)) (state s)"
  by (simp add: signaling_def snd_seq fst_seq fst_buzzer_signaling fst_led_signaling
      snd_led_signaling state_slow_ticks state_fast_ticks)

lemma snd_loop_body:
  "snd (loop_body b e s) =
     snd (signaling b e s)
     @ snd (processing b e (fst (signaling b e s)))
     @ snd (go_to_sleep b e (fst (transition b e s)))"
  by (simp add: loop_body_def transition_def snd_seq fst_seq)

lemma outputs_pass:
  "outputs (drive h (snd (loop_body b e s))) =
     outputs (drive (h\<lparr>Buzzer := (buzzer (fst (signaling b e s)) \<noteq> 0)\<rparr>)
       (led_calls b (fst (signaling b e s)) (state s)))"
proof -
  let ?h1 = "drive h (snd (slow_ticks b e s))"
  let ?h2 = "drive ?h1 (snd (fast_ticks b e (fst (slow_ticks b e s))))"
  let ?h3 = "drive ?h2 (snd (buzzer_signaling (fst (signaling b e s))))"
  have "outputs ?h2 = outputs h"
    by (simp only: outputs_fast_ticks outputs_slow_ticks)
  then have A: "outputs ?h3 = outputs (h\<lparr>Buzzer := (buzzer (fst (signaling b e s)) \<noteq> 0)\<rparr>)"
    by (simp add: outputs_buzzer_signaling) (simp add: outputs_def)
  have "outputs (drive h (snd (loop_body b e s))) =
          outputs (drive ?h3 (led_calls b (fst (signaling b e s)) (state s)))"
    by (simp only: snd_loop_body snd_signaling drive_append outputs_go_to_sleep
        outputs_processing)
  also have "\<dots> = outputs (drive (h\<lparr>Buzzer := (buzzer (fst (signaling b e s)) \<noteq> 0)\<rparr>)
       (led_calls b (fst (signaling b e s)) (state s)))"
    by (rule outputs_drive_cong [OF A])
  finally show ?thesis .
qed

lemma outputs_led_calls:
  "outputs (drive h (led_calls b s m)) =
     (case m of
        S_INIT \<Rightarrow> (True, False, False, False)
      | S_WAKEUP \<Rightarrow> (True, False, False, False)
      | S_IDLE \<Rightarrow> (success s = 1, False, success s \<noteq> 1 \<and> toggle250MS s \<noteq> 0, Buzzer h)
      | S_PROGRAMMING \<Rightarrow>
          (False, \<not> (COMPATIBILITY_MODE_ISPNUB_ORIGINAL b \<or> DONT_USE_YELLOW_LED b),
           COMPATIBILITY_MODE_ISPNUB_ORIGINAL b \<or> DONT_USE_YELLOW_LED b, Buzzer h)
      | S_NO_MORE \<Rightarrow> (toggle250MS s \<noteq> 0, False, toggle250MS s \<noteq> 0, Buzzer h)
      | S_NO_PROGRAM \<Rightarrow> (toggle250MS s = 0, False, toggle250MS s \<noteq> 0, Buzzer h)
      | S_SLEEP \<Rightarrow> (False, False, False, False))"
  by (cases m) (simp_all add: drive_def outputs_def lnot_def)








text \<open>What a pass does when only \<^verbatim>\<open>success\<close> is changed beforehand.\<close>

lemma slow_ticks_success:
  "slow_ticks b e (s\<lparr>success := v\<rparr>)
     = ((fst (slow_ticks b e s))\<lparr>success := v\<rparr>, snd (slow_ticks b e s))"
  by (simp add: slow_ticks_def)

lemma fast_ticks_success:
  "fast_ticks b e (s\<lparr>success := v\<rparr>)
     = ((fst (fast_ticks b e s))\<lparr>success := v\<rparr>, snd (fast_ticks b e s))"
  by (simp add: fast_ticks_def)

lemma buzzer_signaling_success:
  "buzzer_signaling (s\<lparr>success := v\<rparr>)
     = ((fst (buzzer_signaling s))\<lparr>success := v\<rparr>, snd (buzzer_signaling s))"
  by (simp add: buzzer_signaling_def)

lemma led_calls_success:
  "m \<noteq> S_IDLE \<Longrightarrow> led_calls b (s\<lparr>success := v\<rparr>) m = led_calls b s m"
  by (cases m) simp_all

lemma other_led_calls: "other_calls (led_calls b s m) = other_calls (led_calls b s' m)"
  by (cases m) (simp_all add: other_calls_def)

lemma processing_success:
  "processing b e (s\<lparr>success := v\<rparr>)
     = ((fst (processing b e s))\<lparr>success := (if state s = S_PROGRAMMING then script_run e else v)\<rparr>,
        snd (processing b e s))"
  by (cases "state s")
     (simp_all add: processing_def processing_init_def processing_idle_def pressed_def
        processing_programming_def processing_sleep_def seq_def Let_def)

lemma go_to_sleep_success:
  "go_to_sleep b e (s\<lparr>success := v\<rparr>)
     = ((fst (go_to_sleep b e s))\<lparr>success := v\<rparr>, snd (go_to_sleep b e s))"
  by (simp add: go_to_sleep_def)

lemma fst_signaling_success:
  "fst (signaling b e (s\<lparr>success := v\<rparr>)) = (fst (signaling b e s))\<lparr>success := v\<rparr>"
  by (simp add: fst_signaling slow_ticks_success fast_ticks_success)

lemma snd_signaling_success:
  "snd (signaling b e (s\<lparr>success := v\<rparr>)) =
     snd (slow_ticks b e s) @ snd (fast_ticks b e (fst (slow_ticks b e s)))
     @ snd (buzzer_signaling (fst (signaling b e s)))
     @ led_calls b ((fst (signaling b e s))\<lparr>success := v\<rparr>) (state s)"
  by (simp add: snd_signaling fst_signaling_success slow_ticks_success fast_ticks_success
      buzzer_signaling_success)

lemma fst_transition_success:
  "fst (transition b e (s\<lparr>success := v\<rparr>)) =
     (fst (transition b e s))\<lparr>success := (if state s = S_PROGRAMMING then script_run e else v)\<rparr>"
  by (simp add: transition_def fst_seq fst_signaling_success processing_success
      state_signaling)

lemma fst_loop_body_success:
  "fst (loop_body b e (s\<lparr>success := v\<rparr>)) =
     (fst (loop_body b e s))\<lparr>success := (if state s = S_PROGRAMMING then script_run e else v)\<rparr>"
  by (simp add: loop_body_def fst_seq fst_transition_success go_to_sleep_success)

lemma snd_loop_body_success:
  "snd (loop_body b e (s\<lparr>success := v\<rparr>)) =
     snd (slow_ticks b e s) @ snd (fast_ticks b e (fst (slow_ticks b e s)))
     @ snd (buzzer_signaling (fst (signaling b e s)))
     @ led_calls b ((fst (signaling b e s))\<lparr>success := v\<rparr>) (state s)
     @ snd (processing b e (fst (signaling b e s)))
     @ snd (go_to_sleep b e (fst (transition b e s)))"
  by (simp add: snd_loop_body snd_signaling_success fst_signaling_success processing_success
      fst_transition_success go_to_sleep_success)

lemma snd_loop_body_full:
  "snd (loop_body b e s) =
     snd (slow_ticks b e s) @ snd (fast_ticks b e (fst (slow_ticks b e s)))
     @ snd (buzzer_signaling (fst (signaling b e s)))
     @ led_calls b (fst (signaling b e s)) (state s)
     @ snd (processing b e (fst (signaling b e s)))
     @ snd (go_to_sleep b e (fst (transition b e s)))"
  by (simp add: snd_loop_body snd_signaling)

lemma other_calls_append: "other_calls (xs @ ys) = other_calls xs @ other_calls ys"
  by (simp add: other_calls_def)

subsection \<open>The second switch\<close>

text \<open>
  Claim C3. When a pass starts in \<^verbatim>\<open>S_INIT\<close> or \<^verbatim>\<open>S_WAKEUP\<close>, the second switch
  reads the counter once and leaves the mode at \<^verbatim>\<open>S_IDLE\<close>, whatever the counter
  returned: the store of \<^verbatim>\<open>S_NO_MORE\<close> never survives. Nothing else changes.
\<close>

theorem C3_init_wakeup_to_idle:
  assumes "state s = S_INIT \<or> state s = S_WAKEUP"
  shows "processing b e s = (s\<lparr>state := S_IDLE\<rparr>, [Counter_read])"
  using assms by (auto simp: processing_def processing_init_def)

theorem C3_init_wakeup_to_idle_witness:
  "(state (locals0\<lparr>state := S_WAKEUP\<rparr>) = S_INIT
      \<or> state (locals0\<lparr>state := S_WAKEUP\<rparr>) = S_WAKEUP)
   \<and> counter_read ((at_time 0 0)\<lparr>counter_read := 0\<rparr>) = 0
   \<and> state (fst (processing build0 ((at_time 0 0)\<lparr>counter_read := 0\<rparr>)
        (locals0\<lparr>state := S_WAKEUP\<rparr>))) = S_IDLE"
  using C3_init_wakeup_to_idle
    [of "locals0\<lparr>state := S_WAKEUP\<rparr>" build0 "(at_time 0 0)\<lparr>counter_read := 0\<rparr>"]
  by (simp add: at_time_def)

text \<open>
  Claim C4. When a pass starts in \<^verbatim>\<open>S_PROGRAMMING\<close>, the second switch calls
  \<^verbatim>\<open>script_run\<close> exactly once and keeps its result in \<^verbatim>\<open>success\<close>; the result 1 gives
  buzzer 3 and \<^verbatim>\<open>S_IDLE\<close>, the result 0 gives buzzer 30 and \<^verbatim>\<open>S_IDLE\<close>, any other
  result gives buzzer 60 and \<^verbatim>\<open>S_NO_PROGRAM\<close>; in all cases \<^verbatim>\<open>sleeptimer\<close> is then set
  to the slow ticker read after the run, and the tick references and the toggle stay.
\<close>

theorem C4_programming_outcome:
  assumes "state s = S_PROGRAMMING"
  shows "snd (processing b e s) = [Script_run, Clock_getTickerSlow]
    \<and> success (fst (processing b e s)) = script_run e
    \<and> buzzer (fst (processing b e s)) =
        (if script_run e = 1 then 3 else if script_run e = 0 then 30 else 60)
    \<and> state (fst (processing b e s)) =
        (if script_run e = 1 then S_IDLE else if script_run e = 0 then S_IDLE
         else S_NO_PROGRAM)
    \<and> sleeptimer (fst (processing b e s)) = tickerSlow_proc e
    \<and> ticker10MS (fst (processing b e s)) = ticker10MS s
    \<and> ticker250MS (fst (processing b e s)) = ticker250MS s
    \<and> toggle250MS (fst (processing b e s)) = toggle250MS s"
  using assms by (simp add: processing_def processing_programming_def Let_def)

theorem C4_programming_outcome_witness:
  "state (locals0\<lparr>state := S_PROGRAMMING\<rparr>) = S_PROGRAMMING
   \<and> buzzer (fst (processing build0 (at_time 0 9) (locals0\<lparr>state := S_PROGRAMMING\<rparr>))) = 3
   \<and> state (fst (processing build0 (at_time 0 9) (locals0\<lparr>state := S_PROGRAMMING\<rparr>))) = S_IDLE
   \<and> sleeptimer (fst (processing build0 (at_time 0 9) (locals0\<lparr>state := S_PROGRAMMING\<rparr>))) = 9
   \<and> buzzer (fst (processing build0 ((at_time 0 9)\<lparr>script_run := 0\<rparr>)
        (locals0\<lparr>state := S_PROGRAMMING\<rparr>))) = 30
   \<and> state (fst (processing build0 ((at_time 0 9)\<lparr>script_run := 0\<rparr>)
        (locals0\<lparr>state := S_PROGRAMMING\<rparr>))) = S_IDLE
   \<and> buzzer (fst (processing build0 ((at_time 0 9)\<lparr>script_run := 2\<rparr>)
        (locals0\<lparr>state := S_PROGRAMMING\<rparr>))) = 60
   \<and> state (fst (processing build0 ((at_time 0 9)\<lparr>script_run := 2\<rparr>)
        (locals0\<lparr>state := S_PROGRAMMING\<rparr>))) = S_NO_PROGRAM"
  using C4_programming_outcome [of "locals0\<lparr>state := S_PROGRAMMING\<rparr>" build0 "at_time 0 9"]
    C4_programming_outcome
      [of "locals0\<lparr>state := S_PROGRAMMING\<rparr>" build0 "(at_time 0 9)\<lparr>script_run := 0\<rparr>"]
    C4_programming_outcome
      [of "locals0\<lparr>state := S_PROGRAMMING\<rparr>" build0 "(at_time 0 9)\<lparr>script_run := 2\<rparr>"]
  by (simp add: at_time_def)

text \<open>
  Claim C5. When a pass starts in \<^verbatim>\<open>S_IDLE\<close>: if \<^verbatim>\<open>get_key_press\<close> returns nonzero for
  the primary or for the external switch, \<^verbatim>\<open>sleeptimer\<close> is set to the slow ticker first
  and the counter is read after that; a nonzero counter gives \<^verbatim>\<open>S_PROGRAMMING\<close> (buzzer
  untouched), a zero counter gives buzzer 60 and \<^verbatim>\<open>S_NO_MORE\<close>. If neither call returns
  nonzero, the second switch changes no local.
\<close>

theorem C5_idle_press:
  assumes "state s = S_IDLE"
  shows "(if key_press_SWITCH e \<noteq> 0 \<or> key_press_EXT_SWITCH e \<noteq> 0
          then fst (processing b e s) =
                 (if counter_read e \<noteq> 0
                  then s\<lparr>sleeptimer := tickerSlow_proc e, state := S_PROGRAMMING\<rparr>
                  else s\<lparr>sleeptimer := tickerSlow_proc e, buzzer := 60, state := S_NO_MORE\<rparr>)
               \<and> snd (processing b e s) =
                 (if key_press_SWITCH e \<noteq> 0 then [Get_key_press_SWITCH]
                  else [Get_key_press_SWITCH, Get_key_press_EXT_SWITCH])
                 @ [Clock_getTickerSlow, Counter_read]
          else processing b e s = (s, [Get_key_press_SWITCH, Get_key_press_EXT_SWITCH]))"
  using assms
  by (simp add: processing_def processing_idle_def pressed_def seq_def Let_def
      word_greater_zero_iff)

theorem C5_idle_press_witness:
  "state locals0 = S_IDLE
   \<and> state (fst (processing build0 ((at_time 0 9)\<lparr>counter_read := 0, key_press_SWITCH := 1\<rparr>)
        locals0)) = S_NO_MORE
   \<and> buzzer (fst (processing build0 ((at_time 0 9)\<lparr>counter_read := 0, key_press_SWITCH := 1\<rparr>)
        locals0)) = 60
   \<and> state (fst (processing build0 ((at_time 0 9)\<lparr>key_press_EXT_SWITCH := 4\<rparr>) locals0))
       = S_PROGRAMMING
   \<and> sleeptimer (fst (processing build0 ((at_time 0 9)\<lparr>key_press_EXT_SWITCH := 4\<rparr>) locals0))
       = 9
   \<and> fst (processing build0 (at_time 0 9) locals0) = locals0"
  using C5_idle_press [of locals0 "(at_time 0 9)\<lparr>counter_read := 0, key_press_SWITCH := 1\<rparr>" build0]
    C5_idle_press [of locals0 "(at_time 0 9)\<lparr>key_press_EXT_SWITCH := 4\<rparr>" build0]
    C5_idle_press [of locals0 "at_time 0 9" build0]
  by (simp add: at_time_def locals0_def)

text \<open>
  Claim C2. When a pass starts in \<^verbatim>\<open>S_SLEEP\<close>, the second switch makes these calls
  in this order: arm INT0, arm INT1, \<^verbatim>\<open>sleep_enable\<close>, (\<^verbatim>\<open>sleep_bod_disable\<close> where the
  build has it,) \<^verbatim>\<open>sei\<close>, and directly after it \<^verbatim>\<open>sleep_cpu\<close>; then
  \<^verbatim>\<open>sleep_disable\<close> and a read of the slow ticker, which becomes \<^verbatim>\<open>sleeptimer\<close>; the
  mode becomes \<^verbatim>\<open>S_WAKEUP\<close> and no other local changes. When \<^verbatim>\<open>sleep_cpu\<close> is reached
  both sources are armed, sleep is enabled and interrupts are on; at the end sleep is
  disabled again.
\<close>

theorem C2_sleep_sequence:
  assumes "state s = S_SLEEP"
  shows "snd (processing b e s) =
           [Hal_enableINT0, Hal_enableINT1, Sleep_enable]
           @ (if HAS_DYNAMIC_BOD_CONTROL b then [Sleep_bod_disable] else [])
           @ [Sei, Sleep_cpu, Sleep_disable, Clock_getTickerSlow]
    \<and> fst (processing b e s) = s\<lparr>sleeptimer := tickerSlow_proc e, state := S_WAKEUP\<rparr>
    \<and> drive h ([Hal_enableINT0, Hal_enableINT1, Sleep_enable]
           @ (if HAS_DYNAMIC_BOD_CONTROL b then [Sleep_bod_disable] else []) @ [Sei])
        = h\<lparr>INT0 := True, INT1 := True, SE := True, I_flag := True\<rparr>
    \<and> SE (drive h (snd (processing b e s))) = False"
  using assms by (simp add: processing_def processing_sleep_def drive_def)

theorem C2_sleep_sequence_witness:
  "state (locals0\<lparr>state := S_SLEEP\<rparr>) = S_SLEEP
   \<and> snd (processing build0 (at_time 0 50) (locals0\<lparr>state := S_SLEEP\<rparr>)) =
       [Hal_enableINT0, Hal_enableINT1, Sleep_enable, Sei, Sleep_cpu, Sleep_disable,
        Clock_getTickerSlow]
   \<and> state (fst (processing build0 (at_time 0 50) (locals0\<lparr>state := S_SLEEP\<rparr>))) = S_WAKEUP
   \<and> sleeptimer (fst (processing build0 (at_time 0 50) (locals0\<lparr>state := S_SLEEP\<rparr>))) = 50"
  using C2_sleep_sequence [of "locals0\<lparr>state := S_SLEEP\<rparr>" build0 "at_time 0 50" hw0]
  by (simp add: build0_def at_time_def)

subsection \<open>The sleep check\<close>

text \<open>
  Claim C1. In every pass, whatever the mode, the sleep check follows the second switch:
  \<^verbatim>\<open>cli\<close>, then the slow-tick difference against \<^verbatim>\<open>sleeptimer\<close> as the second switch
  left it. If the difference exceeds the 8-second constant the mode becomes \<^verbatim>\<open>S_SLEEP\<close>
  whatever the second switch stored, and interrupts stay off; otherwise the mode is the
  one the second switch stored and \<^verbatim>\<open>sei\<close> turns interrupts on again. The pass ends in
  \<^verbatim>\<open>S_SLEEP\<close> exactly when the difference exceeds the constant.
\<close>

theorem C1_sleep_check:
  "state (fst (loop_body b e s)) =
     (if CLOCK_TICKER_SLOW_8S b < slowDiff_sleep e (sleeptimer (fst (transition b e s)))
      then S_SLEEP else state (fst (transition b e s)))
   \<and> (state (fst (loop_body b e s)) = S_SLEEP) =
       (CLOCK_TICKER_SLOW_8S b < slowDiff_sleep e (sleeptimer (fst (transition b e s))))
   \<and> I_flag (drive h (snd (loop_body b e s))) =
       (\<not> CLOCK_TICKER_SLOW_8S b < slowDiff_sleep e (sleeptimer (fst (transition b e s))))
   \<and> snd (loop_body b e s) = snd (transition b e s)
        @ [Cli, Clock_getTickerSlowDiff (sleeptimer (fst (transition b e s)))]
        @ (if CLOCK_TICKER_SLOW_8S b < slowDiff_sleep e (sleeptimer (fst (transition b e s)))
           then [] else [Sei])"
proof -
  have ns: "state (fst (transition b e s)) \<noteq> S_SLEEP"
    by (simp add: transition_def fst_seq processing_not_sleep)
  show ?thesis
    using ns
    by (simp add: loop_body_def fst_seq snd_seq drive_append I_flag_go_to_sleep)
       (simp add: go_to_sleep_def)
qed

subsection \<open>Buzzer and LEDs\<close>

text \<open>
  Claim C8. The buzzer countdown is an unsigned byte. The tick sections lower it by one
  when a fast tick is seen and it is nonzero, and leave it alone otherwise, so it never
  wraps below zero and falls by at most one per pass. After that a pass only ever stores a
  constant into it: 3, 30 or 60 after a programming run, 60 after a key press in
  \<^verbatim>\<open>S_IDLE\<close> with no cycles left; the stored value does not depend on the old one.
\<close>

theorem C8_buzzer_countdown:
  "unat (buzzer (fst (signaling b e s))) \<le> unat (buzzer s)
   \<and> unat (buzzer s) \<le> unat (buzzer (fst (signaling b e s))) + 1
   \<and> buzzer (fst (signaling b e s)) =
       (if CLOCK_TICKER_FAST_10MS b < fastDiff e (ticker10MS s) \<and> buzzer s \<noteq> 0
        then buzzer s - 1 else buzzer s)
   \<and> buzzer (fst (loop_body b e s)) =
       (if state s = S_PROGRAMMING
        then (if script_run e = 1 then 3 else if script_run e = 0 then 30 else 60)
        else if state s = S_IDLE \<and> counter_read e = 0
                \<and> (key_press_SWITCH e \<noteq> 0 \<or> key_press_EXT_SWITCH e \<noteq> 0)
        then 60
        else buzzer (fst (signaling b e s)))"
proof -
  have a: "buzzer (fst (signaling b e s)) =
       (if CLOCK_TICKER_FAST_10MS b < fastDiff e (ticker10MS s) \<and> buzzer s \<noteq> 0
        then buzzer s - 1 else buzzer s)"
    by (simp add: fst_signaling fst_ticks)
  have b1: "unat (buzzer (fst (signaling b e s))) \<le> unat (buzzer s)"
    by (simp add: a unat_minus_one)
  have b2: "unat (buzzer s) \<le> unat (buzzer (fst (signaling b e s))) + 1"
    by (auto simp: a unat_minus_one)
  have c: "buzzer (fst (loop_body b e s)) =
       (if state s = S_PROGRAMMING
        then (if script_run e = 1 then 3 else if script_run e = 0 then 30 else 60)
        else if state s = S_IDLE \<and> counter_read e = 0
                \<and> (key_press_SWITCH e \<noteq> 0 \<or> key_press_EXT_SWITCH e \<noteq> 0)
        then 60
        else buzzer (fst (signaling b e s)))"
    by (cases "state s")
       (simp_all add: loop_body_def transition_def fst_seq go_to_sleep_def processing_def
          state_signaling processing_init_def processing_idle_def pressed_def
          processing_programming_def processing_sleep_def seq_def Let_def
          word_greater_zero_iff)
  from a b1 b2 c show ?thesis by blast
qed

theorem C8_buzzer_countdown_witness:
  "buzzer (fst (signaling build0 (at_time 2 0) locals0)) = 6
   \<and> buzzer (fst (signaling build0 (at_time 2 0) (locals0\<lparr>buzzer := 0\<rparr>))) = 0
   \<and> buzzer (fst (signaling build0 (at_time 0 0) locals0)) = 7
   \<and> buzzer (fst (loop_body build0
        ((at_time 2 0)\<lparr>counter_read := 0, key_press_EXT_SWITCH := 1\<rparr>) locals0)) = 60
   \<and> buzzer (fst (loop_body build0 (at_time 2 0) (locals0\<lparr>state := S_PROGRAMMING\<rparr>))) = 3
   \<and> buzzer (fst (loop_body build0 (at_time 2 0) locals0)) = 6"
  using C8_buzzer_countdown [of build0 "at_time 2 0" locals0]
    C8_buzzer_countdown [of build0 "at_time 2 0" "locals0\<lparr>buzzer := 0\<rparr>"]
    C8_buzzer_countdown [of build0 "at_time 0 0" locals0]
    C8_buzzer_countdown
      [of build0 "(at_time 2 0)\<lparr>counter_read := 0, key_press_EXT_SWITCH := 1\<rparr>" locals0]
    C8_buzzer_countdown [of build0 "at_time 2 0" "locals0\<lparr>state := S_PROGRAMMING\<rparr>"]
  by (simp add: build0_def at_time_def locals0_def)



text \<open>
  Claim C10. In a build where neither \<^verbatim>\<open>COMPATIBILITY_MODE_ISPNUB_ORIGINAL\<close> nor
  \<^verbatim>\<open>DONT_USE_YELLOW_LED\<close> is 1, the yellow LED is on at the end of a pass exactly when
  the pass started in \<^verbatim>\<open>S_PROGRAMMING\<close>, whatever it was before.
\<close>

theorem C10_yellow:
  assumes "\<not> COMPATIBILITY_MODE_ISPNUB_ORIGINAL b" and "\<not> DONT_USE_YELLOW_LED b"
  shows "LEDyellow (drive h (snd (loop_body b e s))) = (state s = S_PROGRAMMING)"
proof -
  have "fst (snd (outputs (drive h (snd (loop_body b e s))))) = (state s = S_PROGRAMMING)"
    using assms by (simp add: outputs_pass outputs_led_calls split: mode.split)
  then show ?thesis by (simp add: outputs_def)
qed

theorem C10_yellow_witness:
  "\<not> COMPATIBILITY_MODE_ISPNUB_ORIGINAL build0 \<and> \<not> DONT_USE_YELLOW_LED build0
   \<and> LEDyellow (drive hw0 (snd (loop_body build0 (at_time 0 0)
        (locals0\<lparr>state := S_PROGRAMMING\<rparr>))))
   \<and> \<not> LEDyellow (drive (hw0\<lparr>LEDyellow := True\<rparr>)
         (snd (loop_body build0 (at_time 0 0) locals0)))"
  using C10_yellow [of build0 hw0 "at_time 0 0" "locals0\<lparr>state := S_PROGRAMMING\<rparr>"]
    C10_yellow [of build0 "hw0\<lparr>LEDyellow := True\<rparr>" "at_time 0 0" locals0]
  by (simp add: build0_def locals0_def)

text \<open>
  Claim C7, as the code has it. Only a pass that starts in \<^verbatim>\<open>S_PROGRAMMING\<close> writes
  \<^verbatim>\<open>success\<close> (the result of \<^verbatim>\<open>script_run\<close>, which that branch then maps to buzzer and
  mode); every other pass, the one that sleeps and wakes included, keeps it. The value
  \<^verbatim>\<open>success\<close> holds when a pass starts affects nothing but the LED calls of a pass that
  starts in \<^verbatim>\<open>S_IDLE\<close>: the other locals after the pass, all calls of a pass that
  starts in another mode, and all calls other than the LED setters are the same for every
  value. A pass that starts in \<^verbatim>\<open>S_IDLE\<close> shows green alone when the value is 1, and
  otherwise green off, yellow off and red following the toggle.
\<close>

theorem C7_success_retained:
  "fst (loop_body b e (s\<lparr>success := v\<rparr>)) =
     (fst (loop_body b e s))\<lparr>success := (if state s = S_PROGRAMMING then script_run e else v)\<rparr>
   \<and> (state s \<noteq> S_IDLE \<longrightarrow>
        snd (loop_body b e (s\<lparr>success := v\<rparr>)) = snd (loop_body b e s))
   \<and> other_calls (snd (loop_body b e (s\<lparr>success := v\<rparr>))) = other_calls (snd (loop_body b e s))
   \<and> (state s = S_IDLE \<longrightarrow>
        LEDgreen (drive h (snd (loop_body b e (s\<lparr>success := v\<rparr>)))) = (v = 1)
        \<and> LEDyellow (drive h (snd (loop_body b e (s\<lparr>success := v\<rparr>)))) = False
        \<and> LEDred (drive h (snd (loop_body b e (s\<lparr>success := v\<rparr>)))) =
            (v \<noteq> 1 \<and> toggle250MS (fst (signaling b e s)) \<noteq> 0))"
proof -
  have one: "fst (loop_body b e (s\<lparr>success := v\<rparr>)) =
     (fst (loop_body b e s))\<lparr>success := (if state s = S_PROGRAMMING then script_run e else v)\<rparr>"
    by (rule fst_loop_body_success)
  have two: "state s \<noteq> S_IDLE \<Longrightarrow>
        snd (loop_body b e (s\<lparr>success := v\<rparr>)) = snd (loop_body b e s)"
    by (simp only: snd_loop_body_success) (simp add: snd_loop_body_full led_calls_success)
  have three: "other_calls (snd (loop_body b e (s\<lparr>success := v\<rparr>)))
      = other_calls (snd (loop_body b e s))"
    using other_led_calls [of b "(fst (signaling b e s))\<lparr>success := v\<rparr>" "state s"
        "fst (signaling b e s)"]
    by (simp only: snd_loop_body_success) (simp add: snd_loop_body_full other_calls_append)
  have four: "state s = S_IDLE \<Longrightarrow>
      outputs (drive h (snd (loop_body b e (s\<lparr>success := v\<rparr>)))) =
        (v = 1, False, v \<noteq> 1 \<and> toggle250MS (fst (signaling b e s)) \<noteq> 0,
         buzzer (fst (signaling b e s)) \<noteq> 0)"
    by (simp add: outputs_pass fst_signaling_success) (simp add: drive_def outputs_def)
  from one two three four show ?thesis
    by (simp add: outputs_def)
qed

theorem C7_success_retained_witness:
  "success (fst (loop_body build0 (at_time 0 50) (locals0\<lparr>state := S_SLEEP, success := 0\<rparr>))) = 0
   \<and> state (locals0\<lparr>state := S_SLEEP\<rparr>) \<noteq> S_IDLE
   \<and> snd (loop_body build0 (at_time 0 50) (locals0\<lparr>state := S_SLEEP, success := 0\<rparr>))
       = snd (loop_body build0 (at_time 0 50) (locals0\<lparr>state := S_SLEEP\<rparr>))
   \<and> state (locals0\<lparr>toggle250MS := 1\<rparr>) = S_IDLE
   \<and> \<not> LEDgreen (drive hw0 (snd (loop_body build0 (at_time 0 0)
         (locals0\<lparr>toggle250MS := 1, success := 0\<rparr>))))
   \<and> LEDred (drive hw0 (snd (loop_body build0 (at_time 0 0)
         (locals0\<lparr>toggle250MS := 1, success := 0\<rparr>))))"
  using C7_success_retained [where b = build0 and e = "at_time 0 50"
        and s = "locals0\<lparr>state := S_SLEEP\<rparr>" and v = 0 and h = hw0]
    C7_success_retained [where b = build0 and e = "at_time 0 0"
        and s = "locals0\<lparr>toggle250MS := 1\<rparr>" and v = 0 and h = hw0]
  by (simp add: locals0_def fst_signaling fst_ticks build0_def at_time_def
      loop_body_def transition_def fst_seq go_to_sleep_def processing_def
      processing_sleep_def)

text \<open>
  Claim C7 as stated fails: in \<open>sleep_wake_run 0\<close> the programming run fails, the device
  sleeps and is woken, and is back in \<^verbatim>\<open>S_IDLE\<close> with \<^verbatim>\<open>success\<close> still 0; the next
  pass shows green off and red on. The same run with a successful programming run shows
  green on and red off. So the flag from before the sleep still decides the colour.
\<close>

theorem C7_counterexample:
  "Sleep_cpu \<in> set (snd (sleep_wake_run 0))
   \<and> state (fst (sleep_wake_run 0)) = S_IDLE
   \<and> success (fst (sleep_wake_run 0)) = 0
   \<and> \<not> LEDgreen (drive hw0 (snd (seq (sleep_wake_run 0) (loop_body build0 (at_time 8 50)))))
   \<and> LEDred (drive hw0 (snd (seq (sleep_wake_run 0) (loop_body build0 (at_time 8 50)))))
   \<and> state (fst (sleep_wake_run 1)) = S_IDLE
   \<and> LEDgreen (drive hw0 (snd (seq (sleep_wake_run 1) (loop_body build0 (at_time 8 50)))))
   \<and> \<not> LEDred (drive hw0 (snd (seq (sleep_wake_run 1) (loop_body build0 (at_time 8 50)))))"
  by (simp add: sleep_wake_run_def pass_defs)

subsection \<open>The interrupt handlers\<close>

text \<open>
  Claim C9. Each of the two handlers makes exactly one call, the one that disarms its
  own interrupt source; it changes no local of \<^verbatim>\<open>main\<close>, and of the outputs and
  interrupt controls only the arming bit of its own source.
\<close>

theorem C9_handlers:
  "ISR_INT1 s = (s, [Hal_disableINT1]) \<and> drive h (snd (ISR_INT1 s)) = h\<lparr>INT1 := False\<rparr>
   \<and> ISR_INT0 s = (s, [Hal_disableINT0]) \<and> drive h (snd (ISR_INT0 s)) = h\<lparr>INT0 := False\<rparr>"
  by (simp add: ISR_INT1_def ISR_INT0_def drive_def)

end
